theory Spec2Isabelle
  imports Complex_Main
begin

section \<open>pyfor.cloud: the point-cloud container\<close>

text \<open>
  The module \<^verbatim>\<open>pyfor/cloud.py\<close> holds two classes: \<^verbatim>\<open>CloudData\<close> (points plus a
  header) and \<^verbatim>\<open>Cloud\<close> (the operations). Python raises where HOL would return an
  unspecified value, so every operation returns what it raised or what it produced, next
  to the state it left behind.
\<close>

subsection \<open>Exceptions and numbers\<close>

datatype error =
    TypeError | ValueError | IndexError | KeyError | AttributeError | UnboundLocalError
  | IOError | CollaboratorError string

text \<open>
  Coordinates and attributes are numbers; a reduction or a division of numpy can also
  produce \<^verbatim>\<open>nan\<close> or an infinity, which are kept apart from the numbers.
\<close>

datatype npfloat = Fin rat | PosInf | NegInf | NaN

subsection \<open>Containers: pandas DataFrame, pandas Series, numpy arrays\<close>

text \<open>
  A DataFrame is its columns in order, each a label and the values of the rows.
  \<^verbatim>\<open>points\<close> is whatever the caller stored: the operations of the module index it
  either by column label (\<^verbatim>\<open>points["x"]\<close>, a DataFrame) or by position
  (\<^verbatim>\<open>points[:, 2]\<close>, a two-dimensional numpy array given as its rows).
\<close>

type_synonym dataframe = "(string \<times> rat list) list"

datatype points = DataFrame dataframe | NdArray "rat list list"

datatype column = Series "rat list" | Array "rat list"

fun col_values :: "column \<Rightarrow> rat list" where
  "col_values (Series vs) = vs"
| "col_values (Array vs) = vs"

definition nrows :: "dataframe \<Rightarrow> nat" where
  "nrows df = (case df of [] \<Rightarrow> 0 | (_, vs) # _ \<Rightarrow> length vs)"

text \<open>\<^verbatim>\<open>points[name]\<close>: a column of a DataFrame; numpy refuses a string index.\<close>

fun getitem_name :: "points \<Rightarrow> string \<Rightarrow> error + column" where
  "getitem_name (DataFrame df) name =
     (case map_of df name of None \<Rightarrow> Inl KeyError | Some vs \<Rightarrow> Inr (Series vs))"
| "getitem_name (NdArray rows) name = Inl IndexError"

text \<open>
  \<^verbatim>\<open>points[:, j]\<close>: column \<open>j\<close> of a two-dimensional array. A DataFrame takes the
  tuple \<^verbatim>\<open>(slice(None), j)\<close> for a column label and raises, since a slice cannot be
  hashed.
\<close>

fun getitem_slice_col :: "points \<Rightarrow> nat \<Rightarrow> error + column" where
  "getitem_slice_col (DataFrame df) j = Inl TypeError"
| "getitem_slice_col (NdArray rows) j =
     (if list_all (\<lambda>r. j < length r) rows then Inr (Array (map (\<lambda>r. r ! j) rows))
      else Inl IndexError)"

text \<open>Selection by a boolean mask, one entry per row.\<close>

fun select :: "bool list \<Rightarrow> 'a list \<Rightarrow> 'a list" where
  "select (b # bs) (v # vs) = (if b then v # select bs vs else select bs vs)"
| "select _ _ = []"

fun getitem_mask :: "points \<Rightarrow> bool list \<Rightarrow> error + points" where
  "getitem_mask (DataFrame df) msk =
     (if length msk = nrows df then Inr (DataFrame (map (\<lambda>(name, vs). (name, select msk vs)) df))
      else Inl ValueError)"
| "getitem_mask (NdArray rows) msk =
     (if length msk = length rows then Inr (NdArray (select msk rows)) else Inl IndexError)"

text \<open>
  \<^verbatim>\<open>points[name] = values\<close>: replaces the column (or appends it) when there is one value
  per row; the values are taken in row order.
\<close>

fun set_col :: "dataframe \<Rightarrow> string \<Rightarrow> rat list \<Rightarrow> dataframe" where
  "set_col [] name vs = [(name, vs)]"
| "set_col ((n, ws) # df) name vs =
     (if n = name then (n, vs) # df else (n, ws) # set_col df name vs)"

fun setitem_name :: "points \<Rightarrow> string \<Rightarrow> rat list \<Rightarrow> error + points" where
  "setitem_name (DataFrame df) name vs =
     (if df = [] \<or> length vs = nrows df then Inr (DataFrame (set_col df name vs))
      else Inl ValueError)"
| "setitem_name (NdArray rows) name vs = Inl IndexError"

text \<open>\<^verbatim>\<open>np.alen(points)\<close>: the number of rows.\<close>

fun np_alen :: "points \<Rightarrow> nat" where
  "np_alen (DataFrame df) = nrows df"
| "np_alen (NdArray rows) = length rows"

text \<open>\<^verbatim>\<open>points.values\<close>: the rows of a DataFrame; a numpy array has no such attribute.\<close>

fun values_of :: "points \<Rightarrow> error + rat list list" where
  "values_of (DataFrame df) = Inr (transpose (map snd df))"
| "values_of (NdArray rows) = Inl AttributeError"

text \<open>
  \<^verbatim>\<open>np.min\<close> and \<^verbatim>\<open>np.max\<close>. On a Series they call the Series' own reduction, which
  gives \<^verbatim>\<open>nan\<close> when there is nothing to reduce; on an array of size zero they raise.
\<close>

fun np_min :: "column \<Rightarrow> error + npfloat" where
  "np_min (Series []) = Inr NaN"
| "np_min (Array []) = Inl ValueError"
| "np_min (Series (v # vs)) = Inr (Fin (fold min vs v))"
| "np_min (Array (v # vs)) = Inr (Fin (fold min vs v))"

fun np_max :: "column \<Rightarrow> error + npfloat" where
  "np_max (Series []) = Inr NaN"
| "np_max (Array []) = Inl ValueError"
| "np_max (Series (v # vs)) = Inr (Fin (fold max vs v))"
| "np_max (Array (v # vs)) = Inr (Fin (fold max vs v))"

subsection \<open>Headers, the object store and the outside world\<close>

text \<open>
  A header is an object with the three attributes the module assigns (\<^verbatim>\<open>min\<close>,
  \<^verbatim>\<open>max\<close>, \<^verbatim>\<open>count\<close>) and with whatever else it carries (for a LAS header the scale,
  the offset, the version and so on), which the module never assigns. Two clouds can hold
  the same header object, so headers live in a store and a cloud holds an address.
  \<^verbatim>\<open>header.copy()\<close> of a laspy \<^verbatim>\<open>HeaderManager\<close> is taken to give a new object of
  the same class with the same attributes.
\<close>

datatype header_class = HeaderManager | CustomHeader

record header =
  hclass :: header_class
  hmin :: "npfloat list"
  hmax :: "npfloat list"
  hcount :: nat
  hattrs :: "(string \<times> rat list) list"

type_synonym addr = nat

datatype effect =
    Printed string
  | LaspyOpened string addr
  | LaspyStored string "rat list list"

record state =
  objs :: "addr \<Rightarrow> header option"
  next_addr :: addr
  trace :: "effect list"

definition alloc :: "header \<Rightarrow> state \<Rightarrow> addr \<times> state" where
  "alloc h s = (next_addr s, s\<lparr>objs := (objs s)(next_addr s \<mapsto> h), next_addr := Suc (next_addr s)\<rparr>)"

definition print :: "string \<Rightarrow> state \<Rightarrow> state" where
  "print msg s = s\<lparr>trace := trace s @ [Printed msg]\<rparr>"

text \<open>Assigning an attribute of the object at an address; there must be an object.\<close>

definition set_attr :: "addr \<Rightarrow> (header \<Rightarrow> header) \<Rightarrow> state \<Rightarrow> error + state" where
  "set_attr a f s =
     (case objs s a of None \<Rightarrow> Inl AttributeError
      | Some h \<Rightarrow> Inr (s\<lparr>objs := (objs s)(a \<mapsto> f h)\<rparr>))"

subsection \<open>CloudData\<close>

record cloud_data =
  cd_points :: points
  cd_x :: column
  cd_y :: column
  cd_z :: column
  cd_header :: addr

text \<open>
  The three assignments that both \<^verbatim>\<open>CloudData.__init__\<close> (lines 37 to 39) and
  \<^verbatim>\<open>Cloud.filter_z\<close> (lines 205 to 207) end with: the minima, the maxima and the
  count, each stored as soon as it is computed.
\<close>

definition reform_header ::
  "addr \<Rightarrow> column \<Rightarrow> column \<Rightarrow> column \<Rightarrow> points \<Rightarrow> state \<Rightarrow> error option \<times> state" where
  "reform_header a cx cy cz pts s =
     (case np_min cx of Inl e \<Rightarrow> (Some e, s) | Inr x0 \<Rightarrow>
      case np_min cy of Inl e \<Rightarrow> (Some e, s) | Inr y0 \<Rightarrow>
      case np_min cz of Inl e \<Rightarrow> (Some e, s) | Inr z0 \<Rightarrow>
      case set_attr a (\<lambda>h. h\<lparr>hmin := [x0, y0, z0]\<rparr>) s of Inl e \<Rightarrow> (Some e, s) | Inr s1 \<Rightarrow>
      case np_max cx of Inl e \<Rightarrow> (Some e, s1) | Inr x1 \<Rightarrow>
      case np_max cy of Inl e \<Rightarrow> (Some e, s1) | Inr y1 \<Rightarrow>
      case np_max cz of Inl e \<Rightarrow> (Some e, s1) | Inr z1 \<Rightarrow>
      case set_attr a (\<lambda>h. h\<lparr>hmax := [x1, y1, z1]\<rparr>) s1 of Inl e \<Rightarrow> (Some e, s1) | Inr s2 \<Rightarrow>
      case set_attr a (\<lambda>h. h\<lparr>hcount := np_alen pts\<rparr>) s2 of Inl e \<Rightarrow> (Some e, s2)
      | Inr s3 \<Rightarrow> (None, s3))"

text \<open>
  \<^verbatim>\<open>CloudData.__init__(points, header)\<close>: a \<^verbatim>\<open>HeaderManager\<close> is copied, any other
  header object is kept as it is, and the header held is then given the bounds and the
  count of the points.
\<close>

definition CloudData_init :: "points \<Rightarrow> addr \<Rightarrow> state \<Rightarrow> (error + cloud_data) \<times> state" where
  "CloudData_init pts hdr s =
     (case getitem_name pts ''x'' of Inl e \<Rightarrow> (Inl e, s) | Inr cx \<Rightarrow>
      case getitem_name pts ''y'' of Inl e \<Rightarrow> (Inl e, s) | Inr cy \<Rightarrow>
      case getitem_name pts ''z'' of Inl e \<Rightarrow> (Inl e, s) | Inr cz \<Rightarrow>
      case objs s hdr of None \<Rightarrow> (Inl AttributeError, s) | Some h \<Rightarrow>
      let (a, s1) = (if hclass h = HeaderManager then alloc h s else (hdr, s)) in
      case reform_header a cx cy cz pts s1 of
        (Some e, s2) \<Rightarrow> (Inl e, s2)
      | (None, s2) \<Rightarrow>
          (Inr \<lparr>cd_points = pts, cd_x = cx, cd_y = cy, cd_z = cz, cd_header = a\<rparr>, s2))"

text \<open>
  \<^verbatim>\<open>CloudData.write(path)\<close>. laspy is a collaborator: \<open>laspy_open\<close> says whether
  opening the path for writing raises, \<open>laspy_store\<close> whether storing the values and
  closing does. What was done is recorded in the trace.
\<close>

definition unsupported_msg :: string where
  "unsupported_msg = ''Writing custom cloud objects not yet supported.''"

definition CloudData_write ::
  "(string \<Rightarrow> error option) \<Rightarrow> (string \<Rightarrow> rat list list \<Rightarrow> error option) \<Rightarrow>
   cloud_data \<Rightarrow> string \<Rightarrow> state \<Rightarrow> error option \<times> state" where
  "CloudData_write laspy_open laspy_store cd path s =
     (case objs s (cd_header cd) of None \<Rightarrow> (Some AttributeError, s) | Some h \<Rightarrow>
      if hclass h = HeaderManager then
        (case laspy_open path of Some e \<Rightarrow> (Some e, s) | None \<Rightarrow>
         let s1 = s\<lparr>trace := trace s @ [LaspyOpened path (cd_header cd)]\<rparr> in
         case values_of (cd_points cd) of Inl e \<Rightarrow> (Some e, s1) | Inr vs \<Rightarrow>
         case laspy_store path vs of Some e \<Rightarrow> (Some e, s1) | None \<Rightarrow>
         (None, s1\<lparr>trace := trace s1 @ [LaspyStored path vs]\<rparr>))
      else (None, print unsupported_msg s))"

subsection \<open>Cloud\<close>

text \<open>
  A \<^verbatim>\<open>Cloud\<close> has one attribute, \<^verbatim>\<open>las\<close>, and the constructor does not always
  assign it: \<open>None\<close> is the attribute that was never set, and reading it raises.
\<close>

datatype cloud = Cloud (las: "cloud_data option")

text \<open>
  What \<^verbatim>\<open>laspy.file.File(path)\<close> gives: the header values of the file and its point
  records, with the dimensions the constructor reads.
\<close>

record las_point =
  pt_x :: rat
  pt_y :: rat
  pt_z :: rat
  pt_intensity :: rat
  pt_classification :: rat
  pt_flag_byte :: rat
  pt_scan_angle_rank :: rat
  pt_user_data :: rat
  pt_pt_src_id :: rat

record las_file =
  lf_min :: "npfloat list"
  lf_max :: "npfloat list"
  lf_count :: nat
  lf_attrs :: "(string \<times> rat list) list"
  lf_points :: "las_point list"

datatype cloud_arg = PyStr string | PyCloudData cloud_data | PyLaspyFile las_file | PyOther

definition not_supported_msg :: string where
  "not_supported_msg =
     ''Object type not supported, please input either a las file path or a CloudData object.''"

definition rip_points :: "las_file \<Rightarrow> points" where
  "rip_points f = DataFrame
     [(''x'', map pt_x (lf_points f)), (''y'', map pt_y (lf_points f)),
      (''z'', map pt_z (lf_points f)), (''intensity'', map pt_intensity (lf_points f)),
      (''classification'', map pt_classification (lf_points f)),
      (''flag_byte'', map pt_flag_byte (lf_points f)),
      (''scan_angle_rank'', map pt_scan_angle_rank (lf_points f)),
      (''user_data'', map pt_user_data (lf_points f)),
      (''pt_src_id'', map pt_pt_src_id (lf_points f))]"

text \<open>
  \<^verbatim>\<open>Cloud.__init__(las)\<close>. \<open>laspy_File\<close> is the collaborator that opens a path; the
  header of the file it returns is a \<^verbatim>\<open>HeaderManager\<close> object of its own.
\<close>

definition Cloud_init ::
  "(string \<Rightarrow> error + las_file) \<Rightarrow> cloud_arg \<Rightarrow> state \<Rightarrow> (error + cloud) \<times> state" where
  "Cloud_init laspy_File arg s =
     (case arg of
        PyStr path \<Rightarrow>
          (case laspy_File path of Inl e \<Rightarrow> (Inl e, s) | Inr f \<Rightarrow>
           let (a, s1) = alloc \<lparr>hclass = HeaderManager, hmin = lf_min f, hmax = lf_max f,
                                 hcount = lf_count f, hattrs = lf_attrs f\<rparr> s in
           (case CloudData_init (rip_points f) a s1 of
              (Inl e, s2) \<Rightarrow> (Inl e, s2)
            | (Inr cd, s2) \<Rightarrow> (Inr (Cloud (Some cd)), s2)))
      | PyCloudData cd \<Rightarrow> (Inr (Cloud (Some cd)), s)
      | _ \<Rightarrow> (Inr (Cloud None), print not_supported_msg s))"

text \<open>
  \<^verbatim>\<open>Cloud.normalize(cell_size)\<close>. The rasterizer is a collaborator: \<open>dem\<close> stands for
  \<^verbatim>\<open>self.grid(cell_size).normalize().data['z']\<close>, the normalized elevations in row
  order, or what the rasterizer raised. The method assigns the column and nothing else.
\<close>

definition normalize ::
  "(cloud \<Rightarrow> rat \<Rightarrow> error + rat list) \<Rightarrow> cloud \<Rightarrow> rat \<Rightarrow> error option \<times> cloud" where
  "normalize dem c cell_size =
     (case dem c cell_size of Inl e \<Rightarrow> (Some e, c) | Inr zs \<Rightarrow>
      case las c of None \<Rightarrow> (Some AttributeError, c) | Some cd \<Rightarrow>
      case setitem_name (cd_points cd) ''z'' zs of Inl e \<Rightarrow> (Some e, c)
      | Inr p \<Rightarrow> (None, Cloud (Some (cd\<lparr>cd_points := p\<rparr>))))"

text \<open>
  \<^verbatim>\<open>Cloud.clip(geometry)\<close>. A geometry is a Python value: a number, a tuple, or an OGR
  geometry (its ring). Lines 178 to 184 bind \<^verbatim>\<open>keep_points\<close> in two branches only;
  \<open>None\<close> is the name left unbound. \<open>square_clip\<close> and \<open>poly_clip\<close> are the
  functions of \<^verbatim>\<open>clip_funcs\<close>.
\<close>

datatype geometry = Num rat | Tuple "geometry list" | OgrGeometry "(rat \<times> rat) list"

definition clip_keep_points ::
  "(cloud \<Rightarrow> geometry list \<Rightarrow> error + bool list) \<Rightarrow>
   (cloud \<Rightarrow> (rat \<times> rat) list \<Rightarrow> error + points) \<Rightarrow>
   cloud \<Rightarrow> geometry \<Rightarrow> error + points option" where
  "clip_keep_points square_clip poly_clip c geom =
     (case geom of
        Tuple g \<Rightarrow>
          (if length g = 4 then
             (case square_clip c g of Inl e \<Rightarrow> Inl e | Inr msk \<Rightarrow>
              case las c of None \<Rightarrow> Inl AttributeError | Some cd \<Rightarrow>
              case getitem_mask (cd_points cd) msk of Inl e \<Rightarrow> Inl e
              | Inr p \<Rightarrow> Inr (Some p))
           else Inr None)
      | OgrGeometry ring \<Rightarrow>
          (case poly_clip c ring of Inl e \<Rightarrow> Inl e | Inr p \<Rightarrow> Inr (Some p))
      | Num v \<Rightarrow> Inr None)"

definition clip ::
  "(string \<Rightarrow> error + las_file) \<Rightarrow>
   (cloud \<Rightarrow> geometry list \<Rightarrow> error + bool list) \<Rightarrow>
   (cloud \<Rightarrow> (rat \<times> rat) list \<Rightarrow> error + points) \<Rightarrow>
   cloud \<Rightarrow> geometry \<Rightarrow> state \<Rightarrow> (error + cloud) \<times> state" where
  "clip laspy_File square_clip poly_clip c geom s =
     (case clip_keep_points square_clip poly_clip c geom of Inl e \<Rightarrow> (Inl e, s)
      | Inr None \<Rightarrow> (Inl UnboundLocalError, s)
      | Inr (Some keep_points) \<Rightarrow>
          (case las c of None \<Rightarrow> (Inl AttributeError, s) | Some cd \<Rightarrow>
           case CloudData_init keep_points (cd_header cd) s of
             (Inl e, s1) \<Rightarrow> (Inl e, s1)
           | (Inr cd', s1) \<Rightarrow> Cloud_init laspy_File (PyCloudData cd') s1))"

text \<open>
  \<^verbatim>\<open>Cloud.filter_z(min, max)\<close>: each assignment to \<^verbatim>\<open>self.las\<close> is made as soon as
  its right-hand side is there, so the cloud returned next to an error is the one the
  method had reached.
\<close>

definition filter_z :: "cloud \<Rightarrow> rat \<Rightarrow> rat \<Rightarrow> state \<Rightarrow> error option \<times> cloud \<times> state" where
  "filter_z c lo hi s =
     (case las c of None \<Rightarrow> (Some AttributeError, c, s) | Some cd \<Rightarrow>
      case getitem_slice_col (cd_points cd) 2 of Inl e \<Rightarrow> (Some e, c, s) | Inr zc \<Rightarrow>
      let condition = map (\<lambda>v. lo < v \<and> v < hi) (col_values zc) in
      case getitem_mask (cd_points cd) condition of Inl e \<Rightarrow> (Some e, c, s) | Inr p \<Rightarrow>
      let cd1 = cd\<lparr>cd_points := p\<rparr> in
      case getitem_slice_col p 0 of Inl e \<Rightarrow> (Some e, Cloud (Some cd1), s) | Inr cx \<Rightarrow>
      let cd2 = cd1\<lparr>cd_x := cx\<rparr> in
      case getitem_slice_col p 1 of Inl e \<Rightarrow> (Some e, Cloud (Some cd2), s) | Inr cy \<Rightarrow>
      let cd3 = cd2\<lparr>cd_y := cy\<rparr> in
      case getitem_slice_col p 2 of Inl e \<Rightarrow> (Some e, Cloud (Some cd3), s) | Inr cz \<Rightarrow>
      let cd4 = cd3\<lparr>cd_z := cz\<rparr> in
      case reform_header (cd_header cd4) cx cy cz p s of
        (r, s1) \<Rightarrow> (r, Cloud (Some cd4), s1))"







subsection \<open>Example objects\<close>

text \<open>A store with one custom header and one \<^verbatim>\<open>HeaderManager\<close>, and a cloud of two points.\<close>

definition ex_custom :: header where
  "ex_custom = \<lparr>hclass = CustomHeader, hmin = [], hmax = [], hcount = 0, hattrs = []\<rparr>"

definition ex_manager :: header where
  "ex_manager = \<lparr>hclass = HeaderManager, hmin = [], hmax = [], hcount = 0, hattrs = []\<rparr>"

definition ex_state :: state where
  "ex_state = \<lparr>objs = [0 \<mapsto> ex_custom, 1 \<mapsto> ex_manager], next_addr = 2, trace = []\<rparr>"

definition ex_df :: dataframe where
  "ex_df = [(''x'', [0, 1]), (''y'', [0, 3]), (''z'', [10, 12])]"

definition ex_cd :: "addr \<Rightarrow> cloud_data" where
  "ex_cd a = \<lparr>cd_points = DataFrame ex_df, cd_x = Series [0, 1], cd_y = Series [0, 3],
             cd_z = Series [10, 12], cd_header = a\<rparr>"

text \<open>Whether a list of effects holds a store to the file at a path.\<close>

definition stored :: "string \<Rightarrow> effect list \<Rightarrow> bool" where
  "stored path es = list_ex (\<lambda>e. case e of LaspyStored p vs \<Rightarrow> p = path | _ \<Rightarrow> False) es"

subsection \<open>The bounds of a set of points\<close>

text \<open>
  The coordinatewise minimum and maximum of a column (\<^verbatim>\<open>nan\<close> when it is empty), the
  coordinate columns of the points, and what it is for a header to describe the points:
  its \<^verbatim>\<open>min\<close>, \<^verbatim>\<open>max\<close> and \<^verbatim>\<open>count\<close> are the minima, the maxima and the number
  of the points, the number of the points being the number of their x coordinates.
  \<open>reformed\<close> is a header with these three attributes replaced. A DataFrame of pandas
  is rectangular: every column has one value per row.
\<close>

definition col_min :: "rat list \<Rightarrow> npfloat" where
  "col_min vs = (if vs = [] then NaN else Fin (Min (set vs)))"

definition col_max :: "rat list \<Rightarrow> npfloat" where
  "col_max vs = (if vs = [] then NaN else Fin (Max (set vs)))"

fun coords :: "points \<Rightarrow> (rat list \<times> rat list \<times> rat list) option" where
  "coords (DataFrame df) =
     (case (map_of df ''x'', map_of df ''y'', map_of df ''z'') of
        (Some xs, Some ys, Some zs) \<Rightarrow> Some (xs, ys, zs)
      | _ \<Rightarrow> None)"
| "coords (NdArray rows) =
     (if list_all (\<lambda>r. 3 \<le> length r) rows
      then Some (map (\<lambda>r. r ! 0) rows, map (\<lambda>r. r ! 1) rows, map (\<lambda>r. r ! 2) rows)
      else None)"

definition bounded :: "header \<Rightarrow> points \<Rightarrow> bool" where
  "bounded h p =
     (case coords p of None \<Rightarrow> False
      | Some (xs, ys, zs) \<Rightarrow>
          hmin h = [col_min xs, col_min ys, col_min zs] \<and>
          hmax h = [col_max xs, col_max ys, col_max zs] \<and>
          hcount h = length xs)"

definition reformed :: "header \<Rightarrow> rat list \<Rightarrow> rat list \<Rightarrow> rat list \<Rightarrow> nat \<Rightarrow> header" where
  "reformed h xs ys zs n =
     h\<lparr>hmin := [col_min xs, col_min ys, col_min zs],
       hmax := [col_max xs, col_max ys, col_max zs], hcount := n\<rparr>"

definition rectangular :: "dataframe \<Rightarrow> bool" where
  "rectangular df = list_all (\<lambda>(name, vs). length vs = nrows df) df"

text \<open>A LAS file of two points, and the columns of a DataFrame.\<close>

definition ex_point :: "rat \<Rightarrow> rat \<Rightarrow> rat \<Rightarrow> las_point" where
  "ex_point a b c = \<lparr>pt_x = a, pt_y = b, pt_z = c, pt_intensity = 7, pt_classification = 2,
                     pt_flag_byte = 9, pt_scan_angle_rank = 0, pt_user_data = 0, pt_pt_src_id = 1\<rparr>"

definition ex_file :: las_file where
  "ex_file = \<lparr>lf_min = [Fin 0, Fin 0, Fin 10], lf_max = [Fin 1, Fin 3, Fin 12], lf_count = 2,
              lf_attrs = [(''scale'', [1 / 100, 1 / 100, 1 / 100]), (''offset'', [0, 0, 0])],
              lf_points = [ex_point 0 0 10, ex_point 1 3 12]\<rparr>"

definition the_frame :: "points \<Rightarrow> dataframe" where
  "the_frame p = (case p of DataFrame df \<Rightarrow> df | NdArray rows \<Rightarrow> [])"

text \<open>
  Collaborators and a bounding box for the examples: one mask keeps the first point, the
  other keeps both.
\<close>

definition ex_cloud :: "addr \<Rightarrow> cloud" where
  "ex_cloud a = Cloud (Some (ex_cd a))"

definition ex_square_clip :: "cloud \<Rightarrow> geometry list \<Rightarrow> error + bool list" where
  "ex_square_clip c g = Inr [True, False]"


definition ex_poly_clip :: "cloud \<Rightarrow> (rat \<times> rat) list \<Rightarrow> error + points" where
  "ex_poly_clip c ring = Inl (CollaboratorError ''poly_clip'')"

definition ex_laspy_File :: "string \<Rightarrow> error + las_file" where
  "ex_laspy_File path = Inr ex_file"

definition ex_box :: geometry where
  "ex_box = Tuple [Num 0, Num 0, Num (1 / 2), Num 1]"

definition ex_kept :: "addr \<Rightarrow> cloud_data" where
  "ex_kept a = \<lparr>cd_points = DataFrame [(''x'', [0]), (''y'', [0]), (''z'', [10])],
               cd_x = Series [0], cd_y = Series [0], cd_z = Series [10], cd_header = a\<rparr>"

definition ex_kept_header :: "header_class \<Rightarrow> header" where
  "ex_kept_header k = \<lparr>hclass = k, hmin = [Fin 0, Fin 0, Fin 10], hmax = [Fin 0, Fin 0, Fin 10],
                         hcount = 1, hattrs = []\<rparr>"

text \<open>
  More examples: a rasterizer whose normalized elevations are 0 and 2, the header that
  describes the two example points, the cloud after normalization, and the store in
  which the example cloud's header describes its points.
\<close>

definition ex_dem :: "cloud \<Rightarrow> rat \<Rightarrow> error + rat list" where
  "ex_dem c cell_size = Inr [0, 2]"

definition ex_bounded_header :: "header_class \<Rightarrow> header" where
  "ex_bounded_header k = \<lparr>hclass = k, hmin = [Fin 0, Fin 0, Fin 10], hmax = [Fin 1, Fin 3, Fin 12],
                            hcount = 2, hattrs = []\<rparr>"

definition ex_normalized :: "addr \<Rightarrow> cloud" where
  "ex_normalized a = Cloud (Some ((ex_cd a)\<lparr>cd_points :=
      DataFrame [(''x'', [0, 1]), (''y'', [0, 3]), (''z'', [0, 2])]\<rparr>))"



section \<open>Properties\<close>

subsection \<open>Reductions and the constructor of CloudData\<close>

lemma np_min_Series: "np_min (Series vs) = Inr (col_min vs)"
  by (cases vs) (simp_all add: col_min_def Min.set_eq_fold [symmetric])

lemma np_max_Series: "np_max (Series vs) = Inr (col_max vs)"
  by (cases vs) (simp_all add: col_max_def Max.set_eq_fold [symmetric])

lemma np_min_Array: "np_min (Array vs) = (if vs = [] then Inl ValueError else Inr (col_min vs))"
  by (cases vs) (simp_all add: col_min_def Min.set_eq_fold [symmetric])

lemma np_max_Array: "np_max (Array vs) = (if vs = [] then Inl ValueError else Inr (col_max vs))"
  by (cases vs) (simp_all add: col_max_def Max.set_eq_fold [symmetric])

lemma reform_header_Series:
  assumes "objs s a = Some h"
  shows "reform_header a (Series xs) (Series ys) (Series zs) pts s =
           (None, s\<lparr>objs := (objs s)(a \<mapsto> reformed h xs ys zs (np_alen pts))\<rparr>)"
  using assms
  by (simp add: reform_header_def set_attr_def np_min_Series np_max_Series reformed_def)

lemma reform_header_Array:
  assumes "objs s a = Some h" "xs \<noteq> []" "ys \<noteq> []" "zs \<noteq> []"
  shows "reform_header a (Array xs) (Array ys) (Array zs) pts s =
           (None, s\<lparr>objs := (objs s)(a \<mapsto> reformed h xs ys zs (np_alen pts))\<rparr>)"
  using assms
  by (simp add: reform_header_def set_attr_def np_min_Array np_max_Array reformed_def)

lemma CloudData_init_DataFrame:
  assumes "map_of df ''x'' = Some xs" "map_of df ''y'' = Some ys" "map_of df ''z'' = Some zs"
      and "objs s hdr = Some h"
  shows "CloudData_init (DataFrame df) hdr s =
           (let a = (if hclass h = HeaderManager then next_addr s else hdr);
                n = (if hclass h = HeaderManager then Suc (next_addr s) else next_addr s)
            in (Inr \<lparr>cd_points = DataFrame df, cd_x = Series xs, cd_y = Series ys,
                     cd_z = Series zs, cd_header = a\<rparr>,
                s\<lparr>objs := (objs s)(a \<mapsto> reformed h xs ys zs (nrows df)), next_addr := n\<rparr>))"
  using assms
  by (simp add: CloudData_init_def alloc_def reform_header_Series Let_def)

lemma rectangular_col:
  "rectangular df \<Longrightarrow> map_of df k = Some vs \<Longrightarrow> length vs = nrows df"
  by (auto simp: rectangular_def list_all_iff dest: map_of_SomeD)

lemma bounded_reformed:
  assumes "map_of df ''x'' = Some xs" "map_of df ''y'' = Some ys" "map_of df ''z'' = Some zs"
      and "rectangular df"
  shows "bounded (reformed h xs ys zs (nrows df)) (DataFrame df)"
  using assms rectangular_col [of df "''x''" xs] by (simp add: bounded_def reformed_def)


subsection \<open>Writing\<close>

text \<open>
  C7. \<^verbatim>\<open>write(path)\<close> writes the points to the file at the path exactly when the header
  is a \<^verbatim>\<open>HeaderManager\<close>. With such a header and a laspy that does not raise, the file
  is opened and the rows of the points are stored in it. With any other header nothing
  is written and nothing is raised: the message is printed, and that is all. In every
  case the headers in the store stay as they were (the method assigns nothing to the
  \<^verbatim>\<open>CloudData\<close>, which is why it returns none), and a store to the path is among the
  new effects only if the header is a \<^verbatim>\<open>HeaderManager\<close>.
\<close>

theorem CloudData_write_iff_HeaderManager:
  assumes "objs s (cd_header cd) = Some h"
  shows "(hclass h = HeaderManager \<longrightarrow> cd_points cd = DataFrame df \<longrightarrow>
            laspy_open path = None \<longrightarrow> laspy_store path (transpose (map snd df)) = None \<longrightarrow>
            CloudData_write laspy_open laspy_store cd path s =
              (None, s\<lparr>trace := trace s @ [LaspyOpened path (cd_header cd),
                                            LaspyStored path (transpose (map snd df))]\<rparr>))
       \<and> (hclass h \<noteq> HeaderManager \<longrightarrow>
            CloudData_write laspy_open laspy_store cd path s =
              (None, s\<lparr>trace := trace s @ [Printed unsupported_msg]\<rparr>))
       \<and> (\<forall>r s'. CloudData_write laspy_open laspy_store cd path s = (r, s') \<longrightarrow>
            objs s' = objs s \<and> next_addr s' = next_addr s \<and>
            (\<exists>es. trace s' = trace s @ es \<and> (stored path es \<longrightarrow> hclass h = HeaderManager)))"
  using assms
  by (auto simp: CloudData_write_def print_def stored_def Let_def split: option.splits sum.splits)

theorem CloudData_write_witness:
  "CloudData_write (\<lambda>p. None) (\<lambda>p vs. None) (ex_cd 1) ''out.las'' ex_state =
     (None, ex_state\<lparr>trace := [LaspyOpened ''out.las'' 1,
                               LaspyStored ''out.las'' [[0, 0, 10], [1, 3, 12]]]\<rparr>)
   \<and> CloudData_write (\<lambda>p. None) (\<lambda>p vs. None) (ex_cd 0) ''out.las'' ex_state =
     (None, ex_state\<lparr>trace := [Printed unsupported_msg]\<rparr>)"
  using CloudData_write_iff_HeaderManager
          [of ex_state "ex_cd 1" ex_manager ex_df "\<lambda>p. None" "''out.las''" "\<lambda>p vs. None"]
        CloudData_write_iff_HeaderManager
          [of ex_state "ex_cd 0" ex_custom ex_df "\<lambda>p. None" "''out.las''" "\<lambda>p vs. None"]
  by (simp add: ex_state_def ex_cd_def ex_manager_def ex_custom_def ex_df_def transpose.simps)

subsection \<open>Constructing a Cloud\<close>

text \<open>
  C6. For a path that laspy opens, \<^verbatim>\<open>Cloud(path)\<close> returns a cloud whose points are a
  DataFrame with exactly the columns x, y, z, intensity, classification, flag_byte,
  scan_angle_rank, user_data and pt_src_id, each column holding that dimension of the
  point records of the file, one value per record. The \<^verbatim>\<open>CloudData\<close> that holds them
  carries the header of the file: the header object of the laspy file stays in the store
  as the file gave it, and the \<^verbatim>\<open>CloudData\<close> holds a copy of it, another object with
  the attributes of the file's header, whose \<^verbatim>\<open>min\<close>, \<^verbatim>\<open>max\<close> and \<^verbatim>\<open>count\<close> the
  constructor has set to the bounds and the number of the points.
\<close>

theorem Cloud_init_path:
  assumes "laspy_File path = Inr f"
  shows "\<exists>cd s'. Cloud_init laspy_File (PyStr path) s = (Inr (Cloud (Some cd)), s')
           \<and> cd_points cd = DataFrame
               [(''x'', map pt_x (lf_points f)), (''y'', map pt_y (lf_points f)),
                (''z'', map pt_z (lf_points f)), (''intensity'', map pt_intensity (lf_points f)),
                (''classification'', map pt_classification (lf_points f)),
                (''flag_byte'', map pt_flag_byte (lf_points f)),
                (''scan_angle_rank'', map pt_scan_angle_rank (lf_points f)),
                (''user_data'', map pt_user_data (lf_points f)),
                (''pt_src_id'', map pt_pt_src_id (lf_points f))]
           \<and> map fst (the_frame (cd_points cd)) =
               [''x'', ''y'', ''z'', ''intensity'', ''classification'', ''flag_byte'',
                ''scan_angle_rank'', ''user_data'', ''pt_src_id'']
           \<and> (\<forall>vs \<in> set (map snd (the_frame (cd_points cd))). length vs = length (lf_points f))
           \<and> np_alen (cd_points cd) = length (lf_points f)
           \<and> cd_x cd = Series (map pt_x (lf_points f))
           \<and> cd_y cd = Series (map pt_y (lf_points f))
           \<and> cd_z cd = Series (map pt_z (lf_points f))
           \<and> objs s' (next_addr s) =
               Some \<lparr>hclass = HeaderManager, hmin = lf_min f, hmax = lf_max f,
                     hcount = lf_count f, hattrs = lf_attrs f\<rparr>
           \<and> cd_header cd \<noteq> next_addr s
           \<and> (\<exists>h. objs s' (cd_header cd) = Some h \<and> hattrs h = lf_attrs f
                  \<and> hmin h = [col_min (map pt_x (lf_points f)), col_min (map pt_y (lf_points f)),
                              col_min (map pt_z (lf_points f))]
                  \<and> hmax h = [col_max (map pt_x (lf_points f)), col_max (map pt_y (lf_points f)),
                              col_max (map pt_z (lf_points f))]
                  \<and> hcount h = length (lf_points f)
                  \<and> bounded h (cd_points cd))"
proof -
  let ?df = "[(''x'', map pt_x (lf_points f)), (''y'', map pt_y (lf_points f)),
              (''z'', map pt_z (lf_points f)), (''intensity'', map pt_intensity (lf_points f)),
              (''classification'', map pt_classification (lf_points f)),
              (''flag_byte'', map pt_flag_byte (lf_points f)),
              (''scan_angle_rank'', map pt_scan_angle_rank (lf_points f)),
              (''user_data'', map pt_user_data (lf_points f)),
              (''pt_src_id'', map pt_pt_src_id (lf_points f))]"
  let ?h = "\<lparr>hclass = HeaderManager, hmin = lf_min f, hmax = lf_max f,
             hcount = lf_count f, hattrs = lf_attrs f\<rparr>"
  let ?xs = "map pt_x (lf_points f)" and ?ys = "map pt_y (lf_points f)"
    and ?zs = "map pt_z (lf_points f)"
  have df: "rip_points f = DataFrame ?df"
    by (simp add: rip_points_def)
  have cols: "map_of ?df ''x'' = Some ?xs" "map_of ?df ''y'' = Some ?ys"
             "map_of ?df ''z'' = Some ?zs"
    by simp_all
  have n: "nrows ?df = length (lf_points f)"
    by (simp add: nrows_def)
  have rect: "rectangular ?df"
    by (simp add: rectangular_def nrows_def)
  have o1: "objs (snd (alloc ?h s)) (fst (alloc ?h s)) = Some ?h"
    by (simp add: alloc_def)
  have init: "CloudData_init (DataFrame ?df) (fst (alloc ?h s)) (snd (alloc ?h s)) =
      (Inr \<lparr>cd_points = DataFrame ?df, cd_x = Series ?xs, cd_y = Series ?ys,
             cd_z = Series ?zs, cd_header = Suc (next_addr s)\<rparr>,
       s\<lparr>objs := (objs s)(next_addr s \<mapsto> ?h,
                  Suc (next_addr s) \<mapsto> reformed ?h ?xs ?ys ?zs (length (lf_points f))),
         next_addr := Suc (Suc (next_addr s))\<rparr>)"
    unfolding CloudData_init_DataFrame [OF cols o1] n
    by (simp add: alloc_def)
  have run: "Cloud_init laspy_File (PyStr path) s =
      (Inr (Cloud (Some \<lparr>cd_points = DataFrame ?df, cd_x = Series ?xs, cd_y = Series ?ys,
                          cd_z = Series ?zs, cd_header = Suc (next_addr s)\<rparr>)),
       s\<lparr>objs := (objs s)(next_addr s \<mapsto> ?h,
                  Suc (next_addr s) \<mapsto> reformed ?h ?xs ?ys ?zs (length (lf_points f))),
         next_addr := Suc (Suc (next_addr s))\<rparr>)"
    using assms init by (simp add: Cloud_init_def df split_def)
  have b: "bounded (reformed ?h ?xs ?ys ?zs (length (lf_points f))) (DataFrame ?df)"
    using bounded_reformed [OF cols rect, of ?h] n by simp
  have fields: "hattrs (reformed ?h ?xs ?ys ?zs (length (lf_points f))) = lf_attrs f"
    "hmin (reformed ?h ?xs ?ys ?zs (length (lf_points f))) = [col_min ?xs, col_min ?ys, col_min ?zs]"
    "hmax (reformed ?h ?xs ?ys ?zs (length (lf_points f))) = [col_max ?xs, col_max ?ys, col_max ?zs]"
    "hcount (reformed ?h ?xs ?ys ?zs (length (lf_points f))) = length (lf_points f)"
    by (simp_all add: reformed_def)
  show ?thesis
    unfolding run using b fields n
    by (simp add: the_frame_def)
qed

theorem Cloud_init_path_witness:
  "fst (Cloud_init (\<lambda>p. Inr ex_file) (PyStr ''plot.las'') ex_state) =
     Inr (Cloud (Some \<lparr>cd_points = DataFrame
                         [(''x'', [0, 1]), (''y'', [0, 3]), (''z'', [10, 12]),
                          (''intensity'', [7, 7]), (''classification'', [2, 2]),
                          (''flag_byte'', [9, 9]), (''scan_angle_rank'', [0, 0]),
                          (''user_data'', [0, 0]), (''pt_src_id'', [1, 1])],
                       cd_x = Series [0, 1], cd_y = Series [0, 3], cd_z = Series [10, 12],
                       cd_header = 3\<rparr>))
   \<and> map_option hattrs (objs (snd (Cloud_init (\<lambda>p. Inr ex_file) (PyStr ''plot.las'') ex_state)) 3)
       = Some [(''scale'', [1 / 100, 1 / 100, 1 / 100]), (''offset'', [0, 0, 0])]"
  using Cloud_init_path [of "\<lambda>p. Inr ex_file" "''plot.las''" ex_file ex_state]
  by (auto simp: rip_points_def ex_file_def ex_point_def ex_state_def Cloud_init_def alloc_def
        CloudData_init_def reform_header_def set_attr_def Let_def)

text \<open>
  C9. An argument that is neither a path string nor a \<^verbatim>\<open>CloudData\<close> (a laspy file
  object, for one) raises nothing: the message is printed and the cloud returned has no
  \<^verbatim>\<open>las\<close> attribute.
\<close>

theorem Cloud_init_unsupported:
  assumes "\<forall>path. arg \<noteq> PyStr path" and "\<forall>cd. arg \<noteq> PyCloudData cd"
  shows "Cloud_init laspy_File arg s =
           (Inr (Cloud None), s\<lparr>trace := trace s @ [Printed not_supported_msg]\<rparr>)"
  using assms by (cases arg) (simp_all add: Cloud_init_def print_def)

theorem Cloud_init_unsupported_witness:
  "Cloud_init (\<lambda>p. Inl IOError) (PyLaspyFile ex_file) ex_state =
     (Inr (Cloud None), ex_state\<lparr>trace := [Printed not_supported_msg]\<rparr>)
   \<and> las (Cloud None) = None"
  using Cloud_init_unsupported [of "PyLaspyFile ex_file" "\<lambda>p. Inl IOError" ex_state]
  by (simp add: ex_state_def)

subsection \<open>Clipping\<close>

text \<open>
  C1. The docstring of \<^verbatim>\<open>clip\<close> names three kinds of geometry. The third, a tuple of
  a point and a radius, is a tuple of length two: neither branch binds
  \<^verbatim>\<open>keep_points\<close>, and the return statement raises \<^verbatim>\<open>UnboundLocalError\<close>, whatever
  the cloud and the collaborators are.
\<close>

theorem clip_circle_UnboundLocalError:
  "clip laspy_File square_clip poly_clip c (Tuple [Tuple [Num px, Num py], Num r]) s =
     (Inl UnboundLocalError, s)"
  by (simp add: clip_def clip_keep_points_def)

lemmas ex_defs = ex_cloud_def ex_cd_def ex_df_def ex_state_def ex_custom_def ex_manager_def
  ex_square_clip_def ex_poly_clip_def ex_laspy_File_def ex_box_def ex_kept_def ex_kept_header_def

lemmas run_defs = clip_def clip_keep_points_def Cloud_init_def CloudData_init_def
  reform_header_def set_attr_def alloc_def nrows_def Let_def

lemma CloudData_init_InrD:
  assumes "CloudData_init pts hdr s = (Inr cd, s')"
  shows "\<exists>df xs ys zs h. pts = DataFrame df \<and> map_of df ''x'' = Some xs \<and>
           map_of df ''y'' = Some ys \<and> map_of df ''z'' = Some zs \<and> objs s hdr = Some h"
proof (cases pts)
  case (DataFrame df)
  with assms show ?thesis
    by (auto simp: CloudData_init_def split: option.splits sum.splits)
next
  case (NdArray rows)
  with assms show ?thesis by (simp add: CloudData_init_def)
qed

lemma map_of_select:
  "map_of (map (\<lambda>(name, vs). (name, select msk vs)) df) k = map_option (select msk) (map_of df k)"
  by (induction df) auto

lemma nrows_select:
  "nrows (map (\<lambda>(name, vs). (name, select msk vs)) df) =
     (case df of [] \<Rightarrow> 0 | (n, vs) # r \<Rightarrow> length (select msk vs))"
  by (cases df) (auto simp: nrows_def)

lemma clip_square:
  assumes "las c = Some cd" "cd_points cd = DataFrame df" "length g = 4"
      and "square_clip c g = Inr msk" "length msk = nrows df"
      and "map_of df ''x'' = Some xs" "map_of df ''y'' = Some ys" "map_of df ''z'' = Some zs"
      and "objs s (cd_header cd) = Some h"
  shows "clip laspy_File square_clip poly_clip c (Tuple g) s =
           (let df' = map (\<lambda>(name, vs). (name, select msk vs)) df;
                a = (if hclass h = HeaderManager then next_addr s else cd_header cd);
                n = (if hclass h = HeaderManager then Suc (next_addr s) else next_addr s)
            in (Inr (Cloud (Some \<lparr>cd_points = DataFrame df', cd_x = Series (select msk xs),
                                   cd_y = Series (select msk ys), cd_z = Series (select msk zs),
                                   cd_header = a\<rparr>)),
                s\<lparr>objs := (objs s)(a \<mapsto> reformed h (select msk xs) (select msk ys)
                                            (select msk zs) (nrows df')),
                  next_addr := n\<rparr>))"
proof -
  let ?df' = "map (\<lambda>(name, vs). (name, select msk vs)) df"
  have kp: "clip_keep_points square_clip poly_clip c (Tuple g) = Inr (Some (DataFrame ?df'))"
    using assms by (simp add: clip_keep_points_def)
  have cols: "map_of ?df' ''x'' = Some (select msk xs)" "map_of ?df' ''y'' = Some (select msk ys)"
             "map_of ?df' ''z'' = Some (select msk zs)"
    using assms by (simp_all add: map_of_select)
  show ?thesis
    using assms(1,9) kp CloudData_init_DataFrame [OF cols assms(9)]
    by (simp add: clip_def Cloud_init_def Let_def)
qed

lemma select_zip: "select msk vs = map snd (filter fst (zip msk vs))"
  by (induction msk vs rule: select.induct) auto

lemma length_select:
  "length msk = length vs \<Longrightarrow> length (select msk vs) = length (filter id msk)"
  by (induction msk vs rule: select.induct) auto



text \<open>
  C8. For a tuple of four values, \<^verbatim>\<open>clip\<close> returns a new cloud whose points are the rows
  of the original DataFrame at which the mask of \<^verbatim>\<open>clip_funcs.square_clip\<close> is true, in
  their order: every column of the result is the column of the original, paired with the
  mask and reduced to the values whose mask entry is true, and the number of rows is the
  number of true entries. The geometry reaches the result through that mask only: the
  module makes no containment test of its own. The new \<^verbatim>\<open>CloudData\<close> holds a copy of a
  \<^verbatim>\<open>HeaderManager\<close>, or the header object itself when it is of another class.
\<close>

theorem clip_square_is_mask_selection:
  assumes "las c = Some cd" and "cd_points cd = DataFrame df" and "length g = 4"
      and "square_clip c g = Inr msk" and "length msk = nrows df"
      and "map_of df ''x'' = Some xs" and "map_of df ''y'' = Some ys"
      and "map_of df ''z'' = Some zs"
      and "objs s (cd_header cd) = Some h"
  shows "\<exists>cd' s'. clip laspy_File square_clip poly_clip c (Tuple g) s = (Inr (Cloud (Some cd')), s')
           \<and> cd_points cd' =
               DataFrame (map (\<lambda>(name, vs). (name, map snd (filter fst (zip msk vs)))) df)
           \<and> np_alen (cd_points cd') = length (filter id msk)
           \<and> cd_x cd' = Series (map snd (filter fst (zip msk xs)))
           \<and> cd_y cd' = Series (map snd (filter fst (zip msk ys)))
           \<and> cd_z cd' = Series (map snd (filter fst (zip msk zs)))
           \<and> cd_header cd' = (if hclass h = HeaderManager then next_addr s else cd_header cd)"
proof -
  have n: "nrows (map (\<lambda>(name, vs). (name, select msk vs)) df) = length (filter id msk)"
    using assms(5,6) by (cases df) (auto simp: nrows_def length_select)
  show ?thesis
    using assms n clip_square [where square_clip = square_clip and c = c and g = g and s = s
      and laspy_File = laspy_File and poly_clip = poly_clip]
    by (simp add: Let_def select_zip [symmetric])
qed

theorem clip_square_is_mask_selection_witness:
  "\<exists>cd' s'. clip ex_laspy_File ex_square_clip ex_poly_clip (ex_cloud 1) ex_box ex_state =
              (Inr (Cloud (Some cd')), s')
     \<and> cd_points cd' = DataFrame [(''x'', [0]), (''y'', [0]), (''z'', [10])]
     \<and> np_alen (cd_points cd') = 1
     \<and> cd_header cd' = 2"
  using clip_square_is_mask_selection [of "ex_cloud 1" "ex_cd 1" ex_df "[Num 0, Num 0, Num (1 / 2), Num 1]"
          ex_square_clip "[True, False]" "[0, 1]" "[0, 3]" "[10, 12]" ex_state ex_manager
          ex_laspy_File ex_poly_clip]
  by (auto simp: ex_defs nrows_def)




subsection \<open>Normalizing\<close>

lemma map_of_set_col_same: "map_of (set_col df k vs) k = Some vs"
  by (induction df k vs rule: set_col.induct) auto

lemma map_of_set_col_other: "n \<noteq> k \<Longrightarrow> map_of (set_col df k vs) n = map_of df n"
  by (induction df k vs rule: set_col.induct) auto

lemma names_set_col: "k \<in> fst ` set df \<Longrightarrow> map fst (set_col df k vs) = map fst df"
  by (induction df k vs rule: set_col.induct) auto

lemma nrows_set_col: "length vs = nrows df \<Longrightarrow> nrows (set_col df k vs) = nrows df"
  by (cases df) (auto simp: nrows_def)

text \<open>
  C4. When the rasterizer returns one normalized elevation per point, \<^verbatim>\<open>normalize\<close>
  replaces the column z of the points of the cloud by these elevations and changes nothing
  else: every other column (x and y among them) is what it was, the number of rows and
  the column labels are the same, and the other attributes of the \<^verbatim>\<open>CloudData\<close> are
  untouched.
\<close>

theorem normalize_replaces_z_only:
  assumes "dem c cell_size = Inr zs" and "las c = Some cd"
      and "cd_points cd = DataFrame df" and "length zs = nrows df"
  shows "normalize dem c cell_size =
           (None, Cloud (Some (cd\<lparr>cd_points := DataFrame (set_col df ''z'' zs)\<rparr>)))
       \<and> map_of (set_col df ''z'' zs) ''z'' = Some zs
       \<and> (\<forall>name. name \<noteq> ''z'' \<longrightarrow> map_of (set_col df ''z'' zs) name = map_of df name)
       \<and> nrows (set_col df ''z'' zs) = nrows df
       \<and> (''z'' \<in> fst ` set df \<longrightarrow> map fst (set_col df ''z'' zs) = map fst df)"
  using assms
  by (simp add: normalize_def map_of_set_col_same map_of_set_col_other names_set_col nrows_set_col)

theorem normalize_replaces_z_only_witness:
  "normalize ex_dem (ex_cloud 0) 1 = (None, ex_normalized 0)"
  using normalize_replaces_z_only [of ex_dem "ex_cloud 0" 1 "[0, 2]" "ex_cd 0" ex_df]
  by (simp add: ex_defs ex_dem_def ex_normalized_def nrows_def)

text \<open>
  C3. A header describes the points when its \<^verbatim>\<open>min\<close>, \<^verbatim>\<open>max\<close> and \<^verbatim>\<open>count\<close> are
  the coordinatewise minima, the maxima and the number of the points. The constructor of
  \<^verbatim>\<open>CloudData\<close> establishes this, and \<^verbatim>\<open>filter_z\<close> ends with the same three
  assignments; \<^verbatim>\<open>normalize\<close> has none. For the two example points with elevations 10
  and 12 and a rasterizer that returns 0 and 2, the header still says 10 and 12 after
  \<^verbatim>\<open>normalize\<close>.
\<close>

theorem normalize_leaves_header_stale:
  "CloudData_init (DataFrame ex_df) 0 ex_state =
     (Inr (ex_cd 0), ex_state\<lparr>objs := (objs ex_state)(0 \<mapsto> ex_bounded_header CustomHeader)\<rparr>)
   \<and> bounded (ex_bounded_header CustomHeader) (cd_points (ex_cd 0))
   \<and> normalize ex_dem (ex_cloud 0) 1 = (None, ex_normalized 0)
   \<and> \<not> bounded (ex_bounded_header CustomHeader) (cd_points (the (las (ex_normalized 0))))"
  by (simp add: ex_defs run_defs ex_dem_def ex_normalized_def ex_bounded_header_def normalize_def
        bounded_def col_min_def col_max_def numeral_2_eq_2)

subsection \<open>Filtering by height\<close>

text \<open>
  C2. \<^verbatim>\<open>filter_z\<close> indexes the points by position (\<^verbatim>\<open>points[:, 2]\<close>), while the
  constructor of \<^verbatim>\<open>CloudData\<close> indexes them by label (\<^verbatim>\<open>points["x"]\<close>). Whatever
  points the constructor accepted are a DataFrame, so on every cloud built by the
  constructors \<^verbatim>\<open>filter_z\<close> raises at its first line, for all bounds, and neither
  the points nor the header change.
\<close>

theorem filter_z_raises_on_constructed_cloud:
  assumes "CloudData_init pts hdr s0 = (Inr cd, s1)"
  shows "filter_z (Cloud (Some cd)) lo hi s = (Some TypeError, Cloud (Some cd), s)"
proof -
  from CloudData_init_InrD [OF assms] obtain df xs ys zs h where
    p: "pts = DataFrame df" and
    cols: "map_of df ''x'' = Some xs" "map_of df ''y'' = Some ys" "map_of df ''z'' = Some zs" and
    h: "objs s0 hdr = Some h"
    by blast
  from assms CloudData_init_DataFrame [OF cols h] p have "cd_points cd = DataFrame df"
    by (auto simp: Let_def)
  then show ?thesis by (simp add: filter_z_def)
qed

theorem filter_z_raises_witness:
  "CloudData_init (DataFrame ex_df) 0 ex_state =
     (Inr (ex_cd 0), ex_state\<lparr>objs := (objs ex_state)(0 \<mapsto> ex_bounded_header CustomHeader)\<rparr>)
   \<and> filter_z (ex_cloud 0) 11 13 (ex_state\<lparr>objs := (objs ex_state)(0 \<mapsto> ex_bounded_header CustomHeader)\<rparr>)
       = (Some TypeError, ex_cloud 0,
          ex_state\<lparr>objs := (objs ex_state)(0 \<mapsto> ex_bounded_header CustomHeader)\<rparr>)"
proof -
  have run: "CloudData_init (DataFrame ex_df) 0 ex_state =
     (Inr (ex_cd 0), ex_state\<lparr>objs := (objs ex_state)(0 \<mapsto> ex_bounded_header CustomHeader)\<rparr>)"
    by (simp add: ex_defs run_defs ex_bounded_header_def numeral_2_eq_2)
  from filter_z_raises_on_constructed_cloud [OF run] run show ?thesis
    by (simp add: ex_cloud_def)
qed

text \<open>
  What the constructor of \<^verbatim>\<open>CloudData\<close> leaves behind: the points it was given, and a
  header that describes them.
\<close>

lemma CloudData_init_bounded:
  assumes "CloudData_init pts hdr s = (Inr cd, s')" and "rectangular (the_frame pts)"
  shows "cd_points cd = pts \<and> (\<exists>h. objs s' (cd_header cd) = Some h \<and> bounded h (cd_points cd))"
proof -
  from CloudData_init_InrD [OF assms(1)] obtain df xs ys zs h where
    p: "pts = DataFrame df" and
    cols: "map_of df ''x'' = Some xs" "map_of df ''y'' = Some ys" "map_of df ''z'' = Some zs" and
    h: "objs s hdr = Some h"
    by blast
  have rect: "rectangular df"
    using assms(2) p by (simp add: the_frame_def)
  from assms(1) CloudData_init_DataFrame [OF cols h] p bounded_reformed [OF cols rect, of h]
  show ?thesis by (auto simp: Let_def)
qed

text \<open>
  On a two-dimensional array \<^verbatim>\<open>filter_z\<close> does what it was written for: it keeps the rows
  with \<open>lo < z < hi\<close> and reforms the header, unless no row is kept, in which case
  \<^verbatim>\<open>np.min\<close> raises after the points were replaced.
\<close>

lemma select_map_filter: "select (map P xs) xs = filter P xs"
  by (induction xs) auto

lemma getitem_slice_col_NdArray:
  "list_all (\<lambda>r. 3 \<le> length r) rows \<Longrightarrow> j < 3 \<Longrightarrow>
   getitem_slice_col (NdArray rows) j = Inr (Array (map (\<lambda>r. r ! j) rows))"
  by (auto simp: list_all_iff)

lemma filter_z_NdArray:
  assumes "las c = Some cd" and "cd_points cd = NdArray rows"
      and "list_all (\<lambda>r. 3 \<le> length r) rows" and "objs s (cd_header cd) = Some h"
      and "kept = filter (\<lambda>r. lo < r ! 2 \<and> r ! 2 < hi) rows"
  shows "filter_z c lo hi s =
           (if kept = [] then
              (Some ValueError,
               Cloud (Some (cd\<lparr>cd_points := NdArray [], cd_x := Array [], cd_y := Array [],
                                cd_z := Array []\<rparr>)), s)
            else
              (None,
               Cloud (Some (cd\<lparr>cd_points := NdArray kept, cd_x := Array (map (\<lambda>r. r ! 0) kept),
                                cd_y := Array (map (\<lambda>r. r ! 1) kept),
                                cd_z := Array (map (\<lambda>r. r ! 2) kept)\<rparr>)),
               s\<lparr>objs := (objs s)(cd_header cd \<mapsto>
                      reformed h (map (\<lambda>r. r ! 0) kept) (map (\<lambda>r. r ! 1) kept)
                        (map (\<lambda>r. r ! 2) kept) (length kept))\<rparr>))"
proof -
  have sel: "select (map (\<lambda>v. lo < v \<and> v < hi) (map (\<lambda>r. r ! 2) rows)) rows = kept"
    using select_map_filter [of "\<lambda>r. lo < r ! 2 \<and> r ! 2 < hi" rows] assms(5)
    by (simp add: comp_def)
  have all: "list_all (\<lambda>r. 3 \<le> length r) kept"
    using assms(3,5) by (auto simp: list_all_iff)
  show ?thesis
  proof (cases "kept = []")
    case True
    then show ?thesis
      using assms(1,2,4) sel getitem_slice_col_NdArray [OF assms(3), of 2]
      by (simp add: filter_z_def reform_header_def Let_def)
  next
    case False
    then show ?thesis
      using assms(1,2,4) sel getitem_slice_col_NdArray [OF assms(3), of 2]
        getitem_slice_col_NdArray [OF all, of 0] getitem_slice_col_NdArray [OF all, of 1]
        getitem_slice_col_NdArray [OF all, of 2]
        reform_header_Array [of s "cd_header cd" h "map (\<lambda>r. r ! 0) kept" "map (\<lambda>r. r ! 1) kept"
           "map (\<lambda>r. r ! 2) kept" "NdArray kept"]
      by (simp add: filter_z_def Let_def)
  qed
qed

subsection \<open>The colours of plot3d\<close>










end
